theory Spec2Isabelle
  imports Complex_Main
begin

section \<open>Values and tables\<close>

text \<open>
  The screener in \<^verbatim>\<open>app.py\<close> works on pandas tables of float64 values. A float is
  modelled as \<open>real option\<close>: \<open>None\<close> is NaN, the marker pandas uses for an undefined
  entry, and \<open>Some x\<close> is a number. Arithmetic on numbers is the arithmetic of the reals
  (rounding and overflow of float64 are outside the model); NaN propagates through
  arithmetic and makes every comparison false, as in numpy.
\<close>

type_synonym fl = "real option"

definition fadd :: "fl \<Rightarrow> fl \<Rightarrow> fl" where
  "fadd a b = (case a of None \<Rightarrow> None | Some x \<Rightarrow> (case b of None \<Rightarrow> None | Some y \<Rightarrow> Some (x + y)))"

definition fsub :: "fl \<Rightarrow> fl \<Rightarrow> fl" where
  "fsub a b = (case a of None \<Rightarrow> None | Some x \<Rightarrow> (case b of None \<Rightarrow> None | Some y \<Rightarrow> Some (x - y)))"

definition fmul :: "fl \<Rightarrow> fl \<Rightarrow> fl" where
  "fmul a b = (case a of None \<Rightarrow> None | Some x \<Rightarrow> (case b of None \<Rightarrow> None | Some y \<Rightarrow> Some (x * y)))"

definition fgt :: "fl \<Rightarrow> fl \<Rightarrow> bool" where
  "fgt a b = (case a of None \<Rightarrow> False | Some x \<Rightarrow> (case b of None \<Rightarrow> False | Some y \<Rightarrow> x > y))"

definition fle :: "fl \<Rightarrow> fl \<Rightarrow> bool" where
  "fle a b = (case a of None \<Rightarrow> False | Some x \<Rightarrow> (case b of None \<Rightarrow> False | Some y \<Rightarrow> x \<le> y))"

text \<open>
  A table is the list of its rows, oldest first. The table that the price provider
  returns has the columns of \<open>bar\<close>; \<open>calculate_indicators\<close> adds the seven columns
  of \<open>ibar\<close>. \<open>Date\<close> is the index of the table.
\<close>

record bar =
  Date :: nat
  Open :: fl
  High :: fl
  Low :: fl
  Close :: fl
  Volume :: fl

record ibar = bar +
  SMA15 :: fl
  SMA20 :: fl
  Upper :: fl
  Lower :: fl
  MACD :: fl
  Signal :: fl
  Hist :: fl

datatype error = IndexError | AttributeError | DownloadError

section \<open>The pandas operations used by the screener\<close>

text \<open>
  pandas is a library outside the repository; the three operations that
  \<open>calculate_indicators\<close> calls are modelled here from their documented behaviour,
  with the defaults that \<^verbatim>\<open>app.py\<close> leaves in place.

  \<open>rolling(window=w)\<close> with its default \<open>min_periods = w\<close>: the window at row \<open>i\<close>
  holds the rows \<open>i + 1 - w .. i\<close> (fewer while the table is shorter than that); the
  result is NaN unless the window holds at least \<open>w\<close> numbers.
\<close>

fun observations :: "fl list \<Rightarrow> real list" where
  "observations [] = []"
| "observations (None # xs) = observations xs"
| "observations (Some x # xs) = x # observations xs"

definition window_at :: "nat \<Rightarrow> nat \<Rightarrow> 'a list \<Rightarrow> 'a list" where
  "window_at w i xs = drop (Suc i - w) (take (Suc i) xs)"

definition window_mean :: "nat \<Rightarrow> fl list \<Rightarrow> fl" where
  "window_mean min_periods win =
     (let obs = observations win; n = length obs
      in if n < min_periods \<or> n = 0 then None else Some (sum_list obs / real n))"

text \<open>\<open>std()\<close> is the sample standard deviation (\<open>ddof = 1\<close>).\<close>

definition window_std :: "nat \<Rightarrow> fl list \<Rightarrow> fl" where
  "window_std min_periods win =
     (let obs = observations win; n = length obs
      in if n < min_periods \<or> n \<le> 1 then None
         else let m = sum_list obs / real n
              in Some (sqrt (sum_list (map (\<lambda>x. (x - m)\<^sup>2) obs) / real (n - 1))))"

definition rolling_mean :: "nat \<Rightarrow> fl list \<Rightarrow> fl list" where
  "rolling_mean w xs = map (\<lambda>i. window_mean w (window_at w i xs)) [0..<length xs]"

definition rolling_std :: "nat \<Rightarrow> fl list \<Rightarrow> fl list" where
  "rolling_std w xs = map (\<lambda>i. window_std w (window_at w i xs)) [0..<length xs]"

text \<open>
  \<open>ewm(span=spn, adjust=False).mean()\<close>, with the defaults \<open>min_periods = 0\<close> and
  \<open>ignore_na = False\<close>: the smoothing factor is \<open>2 / (spn + 1)\<close>, the first number
  seeds the average, each later number \<open>c\<close> moves the average \<open>w\<close> to
  \<open>(old_wt * w + alpha * c) / (old_wt + alpha)\<close>, where \<open>old_wt\<close> is \<open>1 - alpha\<close>
  once for every row since the last number. A NaN row repeats the running average;
  rows before the first number are NaN.
\<close>

fun ewm_loop :: "real \<Rightarrow> fl \<Rightarrow> real \<Rightarrow> fl list \<Rightarrow> fl list" where
  "ewm_loop alpha weighted old_wt [] = []"
| "ewm_loop alpha None old_wt (cur # rest) = cur # ewm_loop alpha cur old_wt rest"
| "ewm_loop alpha (Some w) old_wt (None # rest) =
     Some w # ewm_loop alpha (Some w) (old_wt * (1 - alpha)) rest"
| "ewm_loop alpha (Some w) old_wt (Some c # rest) =
     (let wt = old_wt * (1 - alpha);
          w' = (wt * w + alpha * c) / (wt + alpha)
      in Some w' # ewm_loop alpha (Some w') 1 rest)"

definition ewm_mean :: "nat \<Rightarrow> fl list \<Rightarrow> fl list" where
  "ewm_mean spn xs =
     (case xs of [] \<Rightarrow> [] | x # rest \<Rightarrow> x # ewm_loop (2 / (real spn + 1)) x 1 rest)"

section \<open>Indicator computation\<close>

definition calculate_indicators :: "bar list \<Rightarrow> ibar list option" where
  "calculate_indicators df =
     (if length df < 35 then None
      else
        let close = map Close df;
            sma15 = rolling_mean 15 close;
            sma20 = rolling_mean 20 close;
            std = rolling_std 20 close;
            upper = map2 fadd sma20 (map (fmul (Some 2)) std);
            lower = map2 fsub sma20 (map (fmul (Some 2)) std);
            exp12 = ewm_mean 12 close;
            exp26 = ewm_mean 26 close;
            macd = map2 fsub exp12 exp26;
            signal = ewm_mean 9 macd;
            hist = map2 fsub macd signal
        in Some (map (\<lambda>i. \<lparr>Date = Date (df ! i), Open = Open (df ! i), High = High (df ! i),
                             Low = Low (df ! i), Close = Close (df ! i), Volume = Volume (df ! i),
                             SMA15 = sma15 ! i, SMA20 = sma20 ! i, Upper = upper ! i,
                             Lower = lower ! i, MACD = macd ! i, Signal = signal ! i,
                             Hist = hist ! i\<rparr>)
                      [0..<length df]))"

section \<open>Strategies\<close>

text \<open>
  The two display labels that \<open>check_strategies\<close> appends: the label of strategy
  eight ("MACD climbing slowly") and of strategy three ("breaks the upper Bollinger
  band"). The requested strategies are the strings \<open>''S8''\<close> and \<open>''S3''\<close>.
\<close>

datatype label = MACD_slow_climb | Bollinger_upper_break

text \<open>\<open>df.iloc[-k]\<close>: the \<open>k\<close>-th row from the end, an IndexError when there is none.\<close>

definition iloc_neg :: "'a list \<Rightarrow> nat \<Rightarrow> error + 'a" where
  "iloc_neg df k = (if 1 \<le> k \<and> k \<le> length df then Inr (df ! (length df - k)) else Inl IndexError)"

definition check_strategies :: "ibar list \<Rightarrow> string list \<Rightarrow> error + label list" where
  "check_strategies df strategies =
     (case iloc_neg df 1 of Inl e \<Rightarrow> Inl e | Inr lst \<Rightarrow>
     (case iloc_neg df 2 of Inl e \<Rightarrow> Inl e | Inr prev \<Rightarrow>
     (case iloc_neg df 3 of Inl e \<Rightarrow> Inl e | Inr prev2 \<Rightarrow>
        let r0 = [];
            r1 = (if ''S8'' \<in> set strategies
                     \<and> (fgt (MACD lst) (MACD prev) \<and> fgt (MACD prev) (MACD prev2))
                     \<and> fgt (MACD lst) (Signal lst)
                     \<and> fgt (Hist lst) (Some 0)
                  then r0 @ [MACD_slow_climb] else r0);
            r2 = (if ''S3'' \<in> set strategies
                     \<and> fgt (Close lst) (Upper lst) \<and> fle (Close prev) (Upper prev)
                  then r1 @ [Bollinger_upper_break] else r1)
        in Inr r2)))"

section \<open>One symbol\<close>

record match_record =
  m_symbol :: string
  m_df :: "ibar list"
  m_matches :: "label list"
  m_price :: fl

text \<open>\<open>stock_str.split('  ')[0]\<close>: the text before the first two consecutive blanks.\<close>

fun split_head :: "string \<Rightarrow> string" where
  "split_head (c # d # cs) =
     (if c = CHR '' '' \<and> d = CHR '' '' then [] else c # split_head (d # cs))"
| "split_head cs = cs"

text \<open>
  The body of the \<open>try\<close> block of \<open>process_stock\<close>. The price provider is the
  parameter \<open>download\<close>: it raises or returns a table. Calling \<open>check_strategies\<close>
  on the \<open>None\<close> of \<open>calculate_indicators\<close> would raise an AttributeError.
\<close>

definition process_stock_try ::
  "(string \<Rightarrow> error + bar list) \<Rightarrow> string \<Rightarrow> string list \<Rightarrow> real \<Rightarrow> real
     \<Rightarrow> error + match_record option" where
  "process_stock_try download stock_str strategies min_p max_p =
     (let symb = split_head stock_str @ ''.TW'' in
      case download symb of Inl e \<Rightarrow> Inl e | Inr data \<Rightarrow>
        if data = [] \<or> length data < 35 then Inr None
        else
          (case iloc_neg (map Close data) 1 of Inl e \<Rightarrow> Inl e | Inr current_price \<Rightarrow>
            if \<not> (fle (Some min_p) current_price \<and> fle current_price (Some max_p)) then Inr None
            else
              (case calculate_indicators data of None \<Rightarrow> Inl AttributeError | Some df \<Rightarrow>
              (case check_strategies df strategies of Inl e \<Rightarrow> Inl e | Inr ms \<Rightarrow>
                if ms \<noteq> []
                then Inr (Some \<lparr>m_symbol = stock_str, m_df = df, m_matches = ms,
                                m_price = current_price\<rparr>)
                else Inr None))))"

text \<open>\<open>process_stock\<close>: the bare \<open>except\<close> turns every exception of the body into \<open>None\<close>.\<close>

definition process_stock ::
  "(string \<Rightarrow> error + bar list) \<Rightarrow> string \<Rightarrow> string list \<Rightarrow> real \<Rightarrow> real
     \<Rightarrow> match_record option" where
  "process_stock download stock_str strategies min_p max_p =
     (case process_stock_try download stock_str strategies min_p max_p of
        Inl e \<Rightarrow> None
      | Inr r \<Rightarrow> r)"

section \<open>The scan\<close>

text \<open>
  The scan submits one task per symbol to the pool and then takes the results of the
  futures in submission order. A future holds what its task returned or the exception it
  raised; \<open>future.result()\<close> re-raises the exception. The tasks share no state, so the
  order in which the pool runs them does not show in the model. \<open>progress\<close> is the log
  of the pairs (processed, total) written to the progress bar and the status line. The
  price range comes from a slider of integers; the bounds are modelled as reals.
\<close>

record scan_state =
  results :: "match_record list"
  progress :: "(nat \<times> nat) list"

definition submit ::
  "(string \<Rightarrow> error + bar list) \<Rightarrow> string list \<Rightarrow> real \<Rightarrow> real \<Rightarrow> string
     \<Rightarrow> error + match_record option" where
  "submit download strategies min_p max_p s = Inr (process_stock download s strategies min_p max_p)"

fun scan_loop ::
  "nat \<Rightarrow> nat \<Rightarrow> (error + match_record option) list \<Rightarrow> scan_state \<Rightarrow> error + scan_state" where
  "scan_loop tot i [] st = Inr st"
| "scan_loop tot i (future # futures) st =
     (case future of
        Inl e \<Rightarrow> Inl e
      | Inr res \<Rightarrow>
          scan_loop tot (Suc i) futures
            \<lparr>results = (case res of Some r \<Rightarrow> results st @ [r] | None \<Rightarrow> results st),
             progress = progress st @ [(Suc i, tot)]\<rparr>)"

definition scan ::
  "(string \<Rightarrow> error + bar list) \<Rightarrow> string list \<Rightarrow> string list \<Rightarrow> real \<times> real
     \<Rightarrow> error + scan_state" where
  "scan download stock_targets strategies price_range =
     (let futures = map (submit download strategies (fst price_range) (snd price_range)) stock_targets
      in scan_loop (length stock_targets) 0 futures \<lparr>results = [], progress = []\<rparr>)"

section \<open>Example inputs\<close>

text \<open>A weekly series of 35 bars that closes at 10 every week.\<close>

definition flat_bar :: "nat \<Rightarrow> bar" where
  "flat_bar i = \<lparr>Date = i, Open = Some 10, High = Some 10, Low = Some 10, Close = Some 10,
                 Volume = Some 1000\<rparr>"

definition flat35 :: "bar list" where
  "flat35 = map flat_bar [0..<35]"

text \<open>
  A row of an indicator table given by its date, close, upper band, MACD, signal and
  histogram; the columns the strategies do not read are left undefined.
\<close>

definition example_row :: "nat \<Rightarrow> fl \<Rightarrow> fl \<Rightarrow> fl \<Rightarrow> fl \<Rightarrow> fl \<Rightarrow> ibar" where
  "example_row n c u m s h =
     \<lparr>Date = n, Open = c, High = c, Low = c, Close = c, Volume = Some 1000,
      SMA15 = None, SMA20 = None, Upper = u, Lower = None, MACD = m, Signal = s, Hist = h\<rparr>"

text \<open>MACD 1, 2, 3 on the last three rows, above its signal on the last one.\<close>

definition rising3 :: "ibar list" where
  "rising3 = [example_row 0 (Some 10) (Some 12) (Some 1) (Some 1) (Some 0),
              example_row 1 (Some 10) (Some 12) (Some 2) (Some 1) (Some 1),
              example_row 2 (Some 10) (Some 12) (Some 3) (Some 2) (Some 1)]"

text \<open>The same MACD, but the histogram of the last row is exactly 0.\<close>

definition flat_hist3 :: "ibar list" where
  "flat_hist3 = [example_row 0 (Some 10) (Some 12) (Some 1) (Some 1) (Some 0),
                 example_row 1 (Some 10) (Some 12) (Some 2) (Some 1) (Some 1),
                 example_row 2 (Some 10) (Some 12) (Some 3) (Some 2) (Some 0)]"

text \<open>The close crosses the upper band at row 2 and stays above it at row 3.\<close>

definition breakout4 :: "ibar list" where
  "breakout4 = [example_row 0 (Some 10) (Some 12) (Some 0) (Some 0) (Some 0),
                example_row 1 (Some 11) (Some 12) (Some 0) (Some 0) (Some 0),
                example_row 2 (Some 13) (Some 12) (Some 0) (Some 0) (Some 0),
                example_row 3 (Some 14) (Some 12) (Some 0) (Some 0) (Some 0)]"

text \<open>Three rows whose MACD, signal and histogram are NaN; the close crosses the band.\<close>

definition undefined_tail3 :: "ibar list" where
  "undefined_tail3 = [example_row 0 (Some 10) (Some 12) None None None,
                      example_row 1 (Some 11) (Some 12) None None None,
                      example_row 2 (Some 13) (Some 12) None None None]"

text \<open>
  Price providers: one that raises for every symbol, one that returns \<open>flat35\<close> and
  (below) one that returns \<open>rising35\<close>.
\<close>

definition failing_download :: "string \<Rightarrow> error + bar list" where
  "failing_download symb = Inl DownloadError"

definition flat_download :: "string \<Rightarrow> error + bar list" where
  "flat_download symb = Inr flat35"

text \<open>
  A bar that opens, peaks, bottoms and closes at the same price, and a weekly series of
  35 bars that closes at 10 for 32 weeks and then at 11, 12 and 13.
\<close>

definition price_bar :: "nat \<Rightarrow> real \<Rightarrow> bar" where
  "price_bar i c = \<lparr>Date = i, Open = Some c, High = Some c, Low = Some c, Close = Some c,
                    Volume = Some 1000\<rparr>"

definition rising35 :: "bar list" where
  "rising35 = map (\<lambda>i. price_bar i 10) [0..<32]
                @ [price_bar 32 11, price_bar 33 12, price_bar 34 13]"

definition rising_download :: "string \<Rightarrow> error + bar list" where
  "rising_download symb = Inr rising35"

text \<open>Two rows only; the close crosses the upper band between them.\<close>

definition two_rows :: "ibar list" where
  "two_rows = [example_row 0 (Some 11) (Some 12) (Some 0) (Some 0) (Some 0),
               example_row 1 (Some 13) (Some 12) (Some 0) (Some 0) (Some 0)]"

section \<open>Facts about the pandas operations\<close>

lemma length_rolling_mean [simp]: "length (rolling_mean w xs) = length xs"
  by (simp add: rolling_mean_def)

lemma length_rolling_std [simp]: "length (rolling_std w xs) = length xs"
  by (simp add: rolling_std_def)

lemma length_ewm_loop [simp]: "length (ewm_loop alpha weighted old_wt xs) = length xs"
  by (induction alpha weighted old_wt xs rule: ewm_loop.induct) (simp_all add: Let_def)

lemma length_ewm_mean [simp]: "length (ewm_mean spn xs) = length xs"
  by (simp add: ewm_mean_def split: list.splits)

lemma nth_rolling_mean:
  "t < length xs \<Longrightarrow> rolling_mean w xs ! t = window_mean w (window_at w t xs)"
  by (simp add: rolling_mean_def)

lemma nth_rolling_std:
  "t < length xs \<Longrightarrow> rolling_std w xs ! t = window_std w (window_at w t xs)"
  by (simp add: rolling_std_def)

lemma ewm_mean_nth_0: "xs \<noteq> [] \<Longrightarrow> ewm_mean spn xs ! 0 = xs ! 0"
  by (cases xs) (simp_all add: ewm_mean_def)

lemma length_observations_le: "length (observations xs) \<le> length xs"
  by (induction xs rule: observations.induct) simp_all

lemma length_observations_defined:
  "\<forall>x\<in>set xs. x \<noteq> None \<Longrightarrow> length (observations xs) = length xs"
  by (induction xs rule: observations.induct) simp_all

lemma observations_replicate: "observations (replicate n (Some x)) = replicate n x"
  by (induction n) simp_all

lemma length_window_at:
  "i < length xs \<Longrightarrow> length (window_at w i xs) = min w (Suc i)"
  by (auto simp: window_at_def)

lemma set_window_at: "set (window_at w i xs) \<subseteq> set xs"
proof -
  have "set (drop (Suc i - w) (take (Suc i) xs)) \<subseteq> set (take (Suc i) xs)"
    by (rule set_drop_subset)
  also have "\<dots> \<subseteq> set xs" by (rule set_take_subset)
  finally show ?thesis by (simp only: window_at_def)
qed

lemma window_mean_None_iff:
  "window_mean m win = None \<longleftrightarrow>
     length (observations win) < m \<or> length (observations win) = 0"
  by (simp add: window_mean_def Let_def)

lemma window_std_None_iff:
  "window_std m win = None \<longleftrightarrow>
     length (observations win) < m \<or> length (observations win) \<le> 1"
  by (simp add: window_std_def Let_def)

lemma length_observations_window:
  assumes "i < length xs" and "\<forall>x\<in>set xs. x \<noteq> None"
  shows "length (observations (window_at w i xs)) = min w (Suc i)"
proof -
  have sub: "set (window_at w i xs) \<subseteq> set xs" by (rule set_window_at)
  have "\<forall>x\<in>set (window_at w i xs). x \<noteq> None"
  proof
    fix x assume "x \<in> set (window_at w i xs)"
    then have "x \<in> set xs" using sub by blast
    then show "x \<noteq> None" using assms(2) by blast
  qed
  then have "length (observations (window_at w i xs)) = length (window_at w i xs)"
    by (rule length_observations_defined)
  also have "\<dots> = min w (Suc i)" using assms(1) by (rule length_window_at)
  finally show ?thesis .
qed

lemma window_mean_defined_iff:
  assumes "0 < w" and "i < length xs" and "\<forall>x\<in>set xs. x \<noteq> None"
  shows "window_mean w (window_at w i xs) \<noteq> None \<longleftrightarrow> w \<le> Suc i"
  unfolding window_mean_None_iff length_observations_window[OF assms(2,3)]
  using assms(1) by arith

lemma window_std_defined_iff:
  assumes "1 < w" and "i < length xs" and "\<forall>x\<in>set xs. x \<noteq> None"
  shows "window_std w (window_at w i xs) \<noteq> None \<longleftrightarrow> w \<le> Suc i"
  unfolding window_std_None_iff length_observations_window[OF assms(2,3)]
  using assms(1) by arith

lemma ewm_loop_defined:
  "\<forall>x\<in>set xs. x \<noteq> None \<Longrightarrow> \<forall>y\<in>set (ewm_loop alpha (Some w) old_wt xs). y \<noteq> None"
proof (induction xs arbitrary: w old_wt)
  case Nil
  then show ?case by simp
next
  case (Cons x xs)
  then obtain c where "x = Some c" by auto
  with Cons show ?case by (simp add: Let_def)
qed

lemma ewm_mean_defined:
  "\<forall>x\<in>set xs. x \<noteq> None \<Longrightarrow> \<forall>y\<in>set (ewm_mean spn xs). y \<noteq> None"
proof (cases xs)
  case Nil
  then show ?thesis by (simp add: ewm_mean_def)
next
  case (Cons x rest)
  assume a: "\<forall>x\<in>set xs. x \<noteq> None"
  then obtain c where c: "x = Some c" using Cons by auto
  have "\<forall>y\<in>set (ewm_loop (2 / (real spn + 1)) (Some c) 1 rest). y \<noteq> None"
    using a Cons by (intro ewm_loop_defined) simp
  then show ?thesis using Cons c by (simp add: ewm_mean_def)
qed

lemma ewm_loop_flat_prefix:
  "ewm_loop a (Some c) 1 (replicate n (Some c) @ ys)
     = replicate n (Some c) @ ewm_loop a (Some c) 1 ys"
proof (induction n)
  case 0
  then show ?case by simp
next
  case (Suc n)
  have "((1 - a) * c + a * c) / (1 - a + a) = c" by (simp add: algebra_simps)
  then show ?case using Suc by (simp add: Let_def)
qed

lemma ewm_mean_flat_prefix:
  "ewm_mean spn (replicate (Suc n) (Some c) @ ys)
     = replicate (Suc n) (Some c) @ ewm_loop (2 / (real spn + 1)) (Some c) 1 ys"
  by (simp add: ewm_mean_def ewm_loop_flat_prefix)

lemma fsub_defined: "a \<noteq> None \<Longrightarrow> b \<noteq> None \<Longrightarrow> fsub a b \<noteq> None"
  by (auto simp: fsub_def)

lemma fsub_None_iff: "fsub a b \<noteq> None \<longleftrightarrow> a \<noteq> None \<and> b \<noteq> None"
  by (auto simp: fsub_def split: option.splits)

lemma fadd_None_iff: "fadd a b \<noteq> None \<longleftrightarrow> a \<noteq> None \<and> b \<noteq> None"
  by (auto simp: fadd_def split: option.splits)

lemma fmul_two_None_iff: "fmul (Some 2) x \<noteq> None \<longleftrightarrow> x \<noteq> None"
  by (cases x) (simp_all add: fmul_def)

lemma map2_fsub_defined:
  assumes "\<forall>x\<in>set xs. x \<noteq> None" and "\<forall>y\<in>set ys. y \<noteq> None"
  shows "\<forall>z\<in>set (map2 fsub xs ys). z \<noteq> None"
proof
  fix z assume "z \<in> set (map2 fsub xs ys)"
  then obtain a b where ab: "(a, b) \<in> set (zip xs ys)" and z: "z = fsub a b" by auto
  have "a \<in> set xs" and "b \<in> set ys"
    using ab by (auto dest: set_zip_leftD set_zip_rightD)
  then have "a \<noteq> None" and "b \<noteq> None" using assms by blast+
  then show "z \<noteq> None" unfolding z by (rule fsub_defined)
qed

section \<open>Facts about the indicator table\<close>

lemma calculate_indicators_length:
  "calculate_indicators df = Some d \<Longrightarrow> length d = length df"
  by (auto simp: calculate_indicators_def Let_def split: if_splits)

lemma calculate_indicators_Some_iff:
  "(\<exists>d. calculate_indicators df = Some d) \<longleftrightarrow> 35 \<le> length df"
  by (auto simp: calculate_indicators_def Let_def)

lemma calculate_indicators_eq:
  assumes "calculate_indicators df = Some d"
  shows "d = map (\<lambda>i. \<lparr>Date = Date (df ! i), Open = Open (df ! i), High = High (df ! i),
             Low = Low (df ! i), Close = Close (df ! i), Volume = Volume (df ! i),
             SMA15 = rolling_mean 15 (map Close df) ! i,
             SMA20 = rolling_mean 20 (map Close df) ! i,
             Upper = map2 fadd (rolling_mean 20 (map Close df))
                       (map (fmul (Some 2)) (rolling_std 20 (map Close df))) ! i,
             Lower = map2 fsub (rolling_mean 20 (map Close df))
                       (map (fmul (Some 2)) (rolling_std 20 (map Close df))) ! i,
             MACD = map2 fsub (ewm_mean 12 (map Close df)) (ewm_mean 26 (map Close df)) ! i,
             Signal = ewm_mean 9 (map2 fsub (ewm_mean 12 (map Close df))
                                    (ewm_mean 26 (map Close df))) ! i,
             Hist = map2 fsub (map2 fsub (ewm_mean 12 (map Close df)) (ewm_mean 26 (map Close df)))
                      (ewm_mean 9 (map2 fsub (ewm_mean 12 (map Close df))
                                    (ewm_mean 26 (map Close df)))) ! i\<rparr>)
           [0..<length df]"
proof (cases "length df < 35")
  case True
  then show ?thesis using assms by (simp add: calculate_indicators_def)
next
  case False
  then show ?thesis using assms by (simp add: calculate_indicators_def Let_def)
qed

lemma calculate_indicators_row:
  assumes "calculate_indicators df = Some d" and "t < length df"
  shows "SMA15 (d ! t) = window_mean 15 (window_at 15 t (map Close df))"
    and "SMA20 (d ! t) = window_mean 20 (window_at 20 t (map Close df))"
    and "Upper (d ! t) = fadd (SMA20 (d ! t))
            (fmul (Some 2) (window_std 20 (window_at 20 t (map Close df))))"
    and "Lower (d ! t) = fsub (SMA20 (d ! t))
            (fmul (Some 2) (window_std 20 (window_at 20 t (map Close df))))"
    and "MACD (d ! t) = fsub (ewm_mean 12 (map Close df) ! t) (ewm_mean 26 (map Close df) ! t)"
    and "Signal (d ! t) =
           ewm_mean 9 (map2 fsub (ewm_mean 12 (map Close df)) (ewm_mean 26 (map Close df))) ! t"
    and "Hist (d ! t) = fsub (MACD (d ! t)) (Signal (d ! t))"
    and "Date (d ! t) = Date (df ! t)" and "Open (d ! t) = Open (df ! t)"
    and "High (d ! t) = High (df ! t)" and "Low (d ! t) = Low (df ! t)"
    and "Close (d ! t) = Close (df ! t)" and "Volume (d ! t) = Volume (df ! t)"
  unfolding calculate_indicators_eq[OF assms(1)]
  using assms(2) by (simp_all add: nth_rolling_mean nth_rolling_std)

lemma length_flat35: "length flat35 = 35"
  by (simp add: flat35_def)

lemma close_flat35: "map Close flat35 = replicate 35 (Some 10)"
proof -
  have "map Close flat35 = map (\<lambda>i. Some 10) [0..<35]"
    unfolding flat35_def map_map comp_def flat_bar_def by simp
  also have "\<dots> = replicate (length [0..<35]) (Some 10)"
    by (rule map_replicate_const)
  finally show ?thesis by simp
qed

lemma flat35_defined: "\<forall>b\<in>set flat35. Close b \<noteq> None"
  by (auto simp: flat35_def flat_bar_def)

lemma flat35_indicators:
  assumes "calculate_indicators flat35 = Some d"
  shows "MACD (d ! 0) = Some 0" and "Signal (d ! 0) = Some 0" and "SMA15 (d ! 14) = Some 10"
proof -
  have ne: "replicate 35 (Some (10::real)) \<noteq> []" by simp
  have e: "ewm_mean spn (replicate 35 (Some (10::real))) ! 0 = Some 10" for spn
    using ewm_mean_nth_0[OF ne, of spn] by simp
  show m: "MACD (d ! 0) = Some 0"
    using calculate_indicators_row(5)[OF assms, of 0]
    by (simp add: length_flat35 close_flat35 e fsub_def)
  have "map2 fsub (ewm_mean 12 (map Close flat35)) (ewm_mean 26 (map Close flat35)) \<noteq> []"
    by (simp add: close_flat35 flip: length_0_conv)
  then have "Signal (d ! 0) =
      map2 fsub (ewm_mean 12 (map Close flat35)) (ewm_mean 26 (map Close flat35)) ! 0"
    using calculate_indicators_row(6)[OF assms, of 0]
    by (simp add: length_flat35 ewm_mean_nth_0)
  also have "\<dots> = Some 0"
    by (simp add: close_flat35 e fsub_def)
  finally show "Signal (d ! 0) = Some 0" .
  have "window_at 15 14 (replicate 35 (Some (10::real))) = replicate 15 (Some 10)"
    by (simp add: window_at_def)
  then show "SMA15 (d ! 14) = Some 10"
    using calculate_indicators_row(1)[OF assms, of 14]
    by (simp add: length_flat35 close_flat35 window_mean_def observations_replicate
          sum_list_replicate)
qed

lemma length_rising35: "length rising35 = 35"
  by (simp add: rising35_def)

lemma close_rising35:
  "map Close rising35 = replicate (Suc 31) (Some 10) @ [Some 11, Some 12, Some 13]"
proof -
  have "map (\<lambda>i. Close (price_bar i 10)) [0..<32] = map (\<lambda>i. Some 10) [0..<32]"
    by (simp add: price_bar_def)
  also have "\<dots> = replicate (length [0..<32]) (Some 10)"
    by (rule map_replicate_const)
  finally have "map (\<lambda>i. Close (price_bar i 10)) [0..<32] = replicate (Suc 31) (Some 10)"
    by simp
  then show ?thesis
    unfolding rising35_def by (simp add: comp_def price_bar_def del: replicate_Suc upt.simps)
qed

lemma ewm12_rising35:
  "ewm_mean 12 (map Close rising35)
     = replicate (Suc 31) (Some 10) @ [Some (132 / 13), Some (1764 / 169), Some (23798 / 2197)]"
  unfolding close_rising35 ewm_mean_flat_prefix by (simp add: Let_def del: replicate_Suc)

lemma ewm26_rising35:
  "ewm_mean 26 (map Close rising35)
     = replicate (Suc 31) (Some 10) @ [Some (272 / 27), Some (7448 / 729), Some (205154 / 19683)]"
  unfolding close_rising35 ewm_mean_flat_prefix by (simp add: Let_def del: replicate_Suc)

lemma macd_rising35:
  "map2 fsub (ewm_mean 12 (map Close rising35)) (ewm_mean 26 (map Close rising35))
     = replicate (Suc 31) (Some 0)
         @ [Some (28 / 351), Some (27244 / 123201), Some (17692696 / 43243551)]"
  unfolding ewm12_rising35 ewm26_rising35
  by (simp add: fsub_def zip_replicate del: replicate_Suc)

lemma signal_rising35:
  "ewm_mean 9 (map2 fsub (ewm_mean 12 (map Close rising35)) (ewm_mean 26 (map Close rising35)))
     = replicate (Suc 31) (Some 0)
         @ [Some (28 / 1755), Some (175532 / 3080025), Some (688764328 / 5405443875)]"
  unfolding macd_rising35 ewm_mean_flat_prefix by (simp add: Let_def del: replicate_Suc)

lemma rising35_indicators:
  assumes "calculate_indicators rising35 = Some d"
  shows "MACD (d ! 32) = Some (28 / 351)" and "MACD (d ! 33) = Some (27244 / 123201)"
    and "MACD (d ! 34) = Some (17692696 / 43243551)"
    and "Signal (d ! 34) = Some (688764328 / 5405443875)"
    and "Hist (d ! 34) = Some (1522822672 / 5405443875)"
proof -
  show m32: "MACD (d ! 32) = Some (28 / 351)"
    using calculate_indicators_row(5)[OF assms, of 32] macd_rising35
    by (simp add: length_rising35 ewm12_rising35 ewm26_rising35 nth_append fsub_def
          del: replicate_Suc)
  show m33: "MACD (d ! 33) = Some (27244 / 123201)"
    using calculate_indicators_row(5)[OF assms, of 33]
    by (simp add: length_rising35 ewm12_rising35 ewm26_rising35 nth_append fsub_def
          del: replicate_Suc)
  show m34: "MACD (d ! 34) = Some (17692696 / 43243551)"
    using calculate_indicators_row(5)[OF assms, of 34]
    by (simp add: length_rising35 ewm12_rising35 ewm26_rising35 nth_append fsub_def
          del: replicate_Suc)
  show s34: "Signal (d ! 34) = Some (688764328 / 5405443875)"
    using calculate_indicators_row(6)[OF assms, of 34]
    by (simp add: length_rising35 signal_rising35 nth_append del: replicate_Suc)
  show "Hist (d ! 34) = Some (1522822672 / 5405443875)"
    using calculate_indicators_row(7)[OF assms, of 34]
    by (simp add: length_rising35 m34 s34 fsub_def)
qed

section \<open>Claims about the indicator computation\<close>

text \<open>
  Claim C5. A price series of fewer than 35 bars is rejected: \<open>calculate_indicators\<close>
  returns \<open>None\<close>, the signal of insufficient data, and so no indicator table and no
  indicator value.
\<close>

theorem short_series_gives_none:
  "length df < 35 \<Longrightarrow> calculate_indicators df = None"
  by (simp add: calculate_indicators_def)

theorem short_series_gives_none_witness:
  "length (take 34 flat35) < 35 \<and> calculate_indicators (take 34 flat35) = None"
proof -
  have h: "length (take 34 flat35) < 35" by (simp add: length_flat35)
  from short_series_gives_none[OF h] h show ?thesis by (rule conjI[rotated])
qed

text \<open>
  Claim C2, as the code has it. For a series of at least 35 bars whose closes are all
  numbers, every indicator is defined from bar 34 on; but each indicator is defined as
  soon as its own window is full, not from bar 34: SMA15 exactly from bar 14, SMA20 and
  both Bollinger bands exactly from bar 19, and MACD, signal and histogram at every bar
  from bar 0.
\<close>

theorem indicator_definedness:
  assumes "35 \<le> length df" and "\<forall>b\<in>set df. Close b \<noteq> None"
  shows "\<exists>d. calculate_indicators df = Some d \<and>
     (\<forall>t<length df.
        (SMA15 (d ! t) \<noteq> None \<longleftrightarrow> 14 \<le> t) \<and>
        (SMA20 (d ! t) \<noteq> None \<longleftrightarrow> 19 \<le> t) \<and>
        (Upper (d ! t) \<noteq> None \<longleftrightarrow> 19 \<le> t) \<and>
        (Lower (d ! t) \<noteq> None \<longleftrightarrow> 19 \<le> t) \<and>
        MACD (d ! t) \<noteq> None \<and> Signal (d ! t) \<noteq> None \<and> Hist (d ! t) \<noteq> None)"
proof -
  obtain d where d: "calculate_indicators df = Some d"
    using assms(1) calculate_indicators_Some_iff by blast
  let ?c = "map Close df"
  let ?macd = "map2 fsub (ewm_mean 12 ?c) (ewm_mean 26 ?c)"
  have c: "\<forall>x\<in>set ?c. x \<noteq> None" using assms(2) by simp
  have e12: "\<forall>y\<in>set (ewm_mean 12 ?c). y \<noteq> None" using c by (rule ewm_mean_defined)
  have e26: "\<forall>y\<in>set (ewm_mean 26 ?c). y \<noteq> None" using c by (rule ewm_mean_defined)
  have macd: "\<forall>z\<in>set ?macd. z \<noteq> None"
    using e12 e26 by (rule map2_fsub_defined)
  then have sig: "\<forall>y\<in>set (ewm_mean 9 ?macd). y \<noteq> None"
    by (rule ewm_mean_defined)
  have "(SMA15 (d ! t) \<noteq> None \<longleftrightarrow> 14 \<le> t) \<and>
        (SMA20 (d ! t) \<noteq> None \<longleftrightarrow> 19 \<le> t) \<and>
        (Upper (d ! t) \<noteq> None \<longleftrightarrow> 19 \<le> t) \<and>
        (Lower (d ! t) \<noteq> None \<longleftrightarrow> 19 \<le> t) \<and>
        MACD (d ! t) \<noteq> None \<and> Signal (d ! t) \<noteq> None \<and> Hist (d ! t) \<noteq> None"
    if t: "t < length df" for t
  proof -
    have tc: "t < length ?c" using t by simp
    have "window_mean 15 (window_at 15 t ?c) \<noteq> None \<longleftrightarrow> 15 \<le> Suc t"
      using tc c by (intro window_mean_defined_iff) simp_all
    then have m15: "window_mean 15 (window_at 15 t ?c) \<noteq> None \<longleftrightarrow> 14 \<le> t" by simp
    have "window_mean 20 (window_at 20 t ?c) \<noteq> None \<longleftrightarrow> 20 \<le> Suc t"
      using tc c by (intro window_mean_defined_iff) simp_all
    then have m20: "window_mean 20 (window_at 20 t ?c) \<noteq> None \<longleftrightarrow> 19 \<le> t" by simp
    have "window_std 20 (window_at 20 t ?c) \<noteq> None \<longleftrightarrow> 20 \<le> Suc t"
      using tc c by (intro window_std_defined_iff) simp_all
    then have s20: "window_std 20 (window_at 20 t ?c) \<noteq> None \<longleftrightarrow> 19 \<le> t" by simp
    have "ewm_mean 12 ?c ! t \<in> set (ewm_mean 12 ?c)" and "ewm_mean 26 ?c ! t \<in> set (ewm_mean 26 ?c)"
      using tc by simp_all
    then have "ewm_mean 12 ?c ! t \<noteq> None" and "ewm_mean 26 ?c ! t \<noteq> None"
      using e12 e26 by blast+
    then have "fsub (ewm_mean 12 ?c ! t) (ewm_mean 26 ?c ! t) \<noteq> None"
      by (rule fsub_defined)
    moreover have "MACD (d ! t) = fsub (ewm_mean 12 ?c ! t) (ewm_mean 26 ?c ! t)"
      by (rule calculate_indicators_row(5)[OF d t])
    ultimately have m: "MACD (d ! t) \<noteq> None" by simp
    have "ewm_mean 9 ?macd ! t \<in> set (ewm_mean 9 ?macd)"
      using tc by simp
    then have "ewm_mean 9 ?macd ! t \<noteq> None"
      using sig by blast
    moreover have "Signal (d ! t) = ewm_mean 9 ?macd ! t"
      by (rule calculate_indicators_row(6)[OF d t])
    ultimately have s: "Signal (d ! t) \<noteq> None" by simp
    have "Hist (d ! t) = fsub (MACD (d ! t)) (Signal (d ! t))"
      by (rule calculate_indicators_row(7)[OF d t])
    moreover have "fsub (MACD (d ! t)) (Signal (d ! t)) \<noteq> None"
      using m s by (rule fsub_defined)
    ultimately have h: "Hist (d ! t) \<noteq> None" by simp
    have sma15: "SMA15 (d ! t) \<noteq> None \<longleftrightarrow> 14 \<le> t"
      unfolding calculate_indicators_row(1)[OF d t] by (rule m15)
    have sma20: "SMA20 (d ! t) \<noteq> None \<longleftrightarrow> 19 \<le> t"
      unfolding calculate_indicators_row(2)[OF d t] by (rule m20)
    have "Upper (d ! t) = fadd (SMA20 (d ! t))
            (fmul (Some 2) (window_std 20 (window_at 20 t ?c)))"
      by (rule calculate_indicators_row(3)[OF d t])
    then have "Upper (d ! t) \<noteq> None \<longleftrightarrow>
        SMA20 (d ! t) \<noteq> None \<and> window_std 20 (window_at 20 t ?c) \<noteq> None"
      by (simp only: fadd_None_iff fmul_two_None_iff)
    then have up: "Upper (d ! t) \<noteq> None \<longleftrightarrow> 19 \<le> t"
      using sma20 s20 by blast
    have "Lower (d ! t) = fsub (SMA20 (d ! t))
            (fmul (Some 2) (window_std 20 (window_at 20 t ?c)))"
      by (rule calculate_indicators_row(4)[OF d t])
    then have "Lower (d ! t) \<noteq> None \<longleftrightarrow>
        SMA20 (d ! t) \<noteq> None \<and> window_std 20 (window_at 20 t ?c) \<noteq> None"
      by (simp only: fsub_None_iff fmul_two_None_iff)
    then have lo: "Lower (d ! t) \<noteq> None \<longleftrightarrow> 19 \<le> t"
      using sma20 s20 by blast
    show ?thesis
      using sma15 sma20 up lo m s h by blast
  qed
  with d show ?thesis by blast
qed

theorem indicator_definedness_witness:
  "35 \<le> length flat35 \<and>
   (\<exists>d. calculate_indicators flat35 = Some d \<and>
     (\<forall>t<length flat35.
        (SMA15 (d ! t) \<noteq> None \<longleftrightarrow> 14 \<le> t) \<and>
        (SMA20 (d ! t) \<noteq> None \<longleftrightarrow> 19 \<le> t) \<and>
        (Upper (d ! t) \<noteq> None \<longleftrightarrow> 19 \<le> t) \<and>
        (Lower (d ! t) \<noteq> None \<longleftrightarrow> 19 \<le> t) \<and>
        MACD (d ! t) \<noteq> None \<and> Signal (d ! t) \<noteq> None \<and> Hist (d ! t) \<noteq> None))"
proof -
  have h1: "35 \<le> length flat35" by (simp add: length_flat35)
  have h2: "\<forall>b\<in>set flat35. Close b \<noteq> None" by (rule flat35_defined)
  from indicator_definedness[OF h1 h2] h1 show ?thesis by (intro conjI)
qed

text \<open>
  The claim as stated fails on the flat series of 35 bars: MACD is already the number
  0 at bar 0 and SMA15 the number 10 at bar 14, both before bar 34.
\<close>

theorem defined_before_bar_34:
  "map_option (\<lambda>d. (MACD (d ! 0), SMA15 (d ! 14))) (calculate_indicators flat35)
     = Some (Some 0, Some 10)"
proof -
  have "35 \<le> length flat35" by (simp add: length_flat35)
  then obtain d where d: "calculate_indicators flat35 = Some d"
    using calculate_indicators_Some_iff by blast
  show ?thesis
    by (simp add: d flat35_indicators(1)[OF d] flat35_indicators(3)[OF d])
qed

text \<open>
  Claim C9. Wherever MACD and signal are both numbers, the histogram is exactly their
  difference.
\<close>

theorem hist_is_macd_minus_signal:
  assumes "calculate_indicators df = Some d" and "t < length d"
    and "MACD (d ! t) = Some m" and "Signal (d ! t) = Some s"
  shows "Hist (d ! t) = Some (m - s)"
proof -
  have "t < length df" using assms(1,2) by (simp add: calculate_indicators_length)
  then have "Hist (d ! t) = fsub (MACD (d ! t)) (Signal (d ! t))"
    by (rule calculate_indicators_row(7)[OF assms(1)])
  then show ?thesis using assms(3,4) by (simp add: fsub_def)
qed

theorem hist_is_macd_minus_signal_witness:
  "\<exists>d. calculate_indicators flat35 = Some d \<and> 0 < length d \<and> MACD (d ! 0) = Some 0
     \<and> Signal (d ! 0) = Some 0 \<and> Hist (d ! 0) = Some (0 - 0)"
proof -
  have "35 \<le> length flat35" by (simp add: length_flat35)
  then obtain d where d: "calculate_indicators flat35 = Some d"
    using calculate_indicators_Some_iff by blast
  have l: "0 < length d"
    using calculate_indicators_length[OF d] by (simp add: length_flat35)
  have m: "MACD (d ! 0) = Some 0" by (rule flat35_indicators(1)[OF d])
  have s: "Signal (d ! 0) = Some 0" by (rule flat35_indicators(2)[OF d])
  have "Hist (d ! 0) = Some (0 - 0)" by (rule hist_is_macd_minus_signal[OF d l m s])
  with d l m s show ?thesis by blast
qed

text \<open>
  Claim C10. The indicator table has the rows of the price series, and every original
  column (date, open, high, low, close, volume) is unchanged at every bar.
\<close>

theorem price_columns_unchanged:
  assumes "35 \<le> length df"
  shows "\<exists>d. calculate_indicators df = Some d \<and> length d = length df \<and>
     (\<forall>t<length df. Date (d ! t) = Date (df ! t) \<and> Open (d ! t) = Open (df ! t)
        \<and> High (d ! t) = High (df ! t) \<and> Low (d ! t) = Low (df ! t)
        \<and> Close (d ! t) = Close (df ! t) \<and> Volume (d ! t) = Volume (df ! t))"
proof -
  obtain d where d: "calculate_indicators df = Some d"
    using assms calculate_indicators_Some_iff by blast
  have "length d = length df" using d by (rule calculate_indicators_length)
  moreover have "\<forall>t<length df. Date (d ! t) = Date (df ! t) \<and> Open (d ! t) = Open (df ! t)
        \<and> High (d ! t) = High (df ! t) \<and> Low (d ! t) = Low (df ! t)
        \<and> Close (d ! t) = Close (df ! t) \<and> Volume (d ! t) = Volume (df ! t)"
    using calculate_indicators_row(8-13)[OF d] by simp
  ultimately show ?thesis using d by blast
qed

theorem price_columns_unchanged_witness:
  "35 \<le> length flat35 \<and>
   (\<exists>d. calculate_indicators flat35 = Some d \<and> length d = length flat35 \<and>
     (\<forall>t<length flat35. Date (d ! t) = Date (flat35 ! t) \<and> Open (d ! t) = Open (flat35 ! t)
        \<and> High (d ! t) = High (flat35 ! t) \<and> Low (d ! t) = Low (flat35 ! t)
        \<and> Close (d ! t) = Close (flat35 ! t) \<and> Volume (d ! t) = Volume (flat35 ! t)))"
proof -
  have h: "35 \<le> length flat35" by (simp add: length_flat35)
  from price_columns_unchanged[OF h] h show ?thesis by (intro conjI)
qed

section \<open>Claims about the strategies\<close>

lemma check_strategies_long:
  assumes "3 \<le> length df"
  shows "check_strategies df strategies =
    Inr ((if ''S8'' \<in> set strategies
             \<and> (fgt (MACD (df ! (length df - 1))) (MACD (df ! (length df - 2)))
                \<and> fgt (MACD (df ! (length df - 2))) (MACD (df ! (length df - 3))))
             \<and> fgt (MACD (df ! (length df - 1))) (Signal (df ! (length df - 1)))
             \<and> fgt (Hist (df ! (length df - 1))) (Some 0)
          then [MACD_slow_climb] else [])
         @ (if ''S3'' \<in> set strategies
             \<and> fgt (Close (df ! (length df - 1))) (Upper (df ! (length df - 1)))
             \<and> fle (Close (df ! (length df - 2))) (Upper (df ! (length df - 2)))
            then [Bollinger_upper_break] else []))"
  using assms by (simp add: check_strategies_def iloc_neg_def Let_def)

lemma check_strategies_short:
  assumes "length df < 3"
  shows "check_strategies df strategies = Inl IndexError"
  using assms by (simp add: check_strategies_def iloc_neg_def Let_def)

lemma fle_not_fgt: "fle a b \<Longrightarrow> \<not> fgt a b"
  by (auto simp: fle_def fgt_def split: option.splits)

lemma rising35_matches_s8:
  assumes "calculate_indicators rising35 = Some d"
  shows "check_strategies d [''S8''] = Inr [MACD_slow_climb]"
proof -
  have l: "length d = 35"
    using calculate_indicators_length[OF assms] by (simp add: length_rising35)
  then have "3 \<le> length d" by simp
  then show ?thesis
    by (simp add: check_strategies_long l rising35_indicators[OF assms] fgt_def)
qed

lemma s3_last_rows:
  assumes "3 \<le> length df" and "''S3'' \<in> set strategies"
  shows "\<exists>res. check_strategies df strategies = Inr res \<and>
     (Bollinger_upper_break \<in> set res \<longleftrightarrow>
        fgt (Close (df ! (length df - 1))) (Upper (df ! (length df - 1)))
      \<and> fle (Close (df ! (length df - 2))) (Upper (df ! (length df - 2))))"
  using assms by (auto simp: check_strategies_long)

lemma s3_at_bar:
  assumes "2 \<le> k" and "k < length df" and "''S3'' \<in> set strategies"
  shows "\<exists>res. check_strategies (take (Suc k) df) strategies = Inr res \<and>
     (Bollinger_upper_break \<in> set res \<longleftrightarrow>
        fgt (Close (df ! k)) (Upper (df ! k)) \<and> fle (Close (df ! (k - 1))) (Upper (df ! (k - 1))))"
proof -
  have len: "length (take (Suc k) df) = Suc k" using assms(2) by simp
  have "3 \<le> length (take (Suc k) df)" using assms(1) len by simp
  from s3_last_rows[OF this assms(3)] show ?thesis
    using assms(1,2) by (simp add: len)
qed

text \<open>
  Claim C3. On a table of at least three rows, with S8 requested, the label of S8 is
  among the matches exactly when MACD rises strictly over the last three rows, MACD is
  above the signal and the histogram is above 0 on the last row; with a histogram of 0
  or less on the last row, S8 does not match.
\<close>

theorem s8_matches_iff:
  assumes "3 \<le> length df" and "''S8'' \<in> set strategies"
  shows "\<exists>res. check_strategies df strategies = Inr res \<and>
     (MACD_slow_climb \<in> set res \<longleftrightarrow>
        fgt (MACD (df ! (length df - 1))) (MACD (df ! (length df - 2)))
      \<and> fgt (MACD (df ! (length df - 2))) (MACD (df ! (length df - 3)))
      \<and> fgt (MACD (df ! (length df - 1))) (Signal (df ! (length df - 1)))
      \<and> fgt (Hist (df ! (length df - 1))) (Some 0))
   \<and> (fle (Hist (df ! (length df - 1))) (Some 0) \<longrightarrow> MACD_slow_climb \<notin> set res)"
  using assms by (auto simp: check_strategies_long dest: fle_not_fgt)

theorem s8_matches_iff_witness:
  "3 \<le> length rising3 \<and> ''S8'' \<in> set [''S8''] \<and>
   (\<exists>res. check_strategies rising3 [''S8''] = Inr res \<and> MACD_slow_climb \<in> set res) \<and>
   fle (Hist (flat_hist3 ! (length flat_hist3 - 1))) (Some 0) \<and>
   (\<exists>res. check_strategies flat_hist3 [''S8''] = Inr res \<and> MACD_slow_climb \<notin> set res)"
proof -
  have h1: "3 \<le> length rising3" by (simp add: rising3_def)
  have h2: "''S8'' \<in> set [''S8'']" by simp
  have up: "fgt (MACD (rising3 ! (length rising3 - 1))) (MACD (rising3 ! (length rising3 - 2)))
      \<and> fgt (MACD (rising3 ! (length rising3 - 2))) (MACD (rising3 ! (length rising3 - 3)))
      \<and> fgt (MACD (rising3 ! (length rising3 - 1))) (Signal (rising3 ! (length rising3 - 1)))
      \<and> fgt (Hist (rising3 ! (length rising3 - 1))) (Some 0)"
    by (simp add: rising3_def example_row_def fgt_def)
  from s8_matches_iff[OF h1 h2] up
  have a: "\<exists>res. check_strategies rising3 [''S8''] = Inr res \<and> MACD_slow_climb \<in> set res"
    by blast
  have h3: "3 \<le> length flat_hist3" by (simp add: flat_hist3_def)
  have z: "fle (Hist (flat_hist3 ! (length flat_hist3 - 1))) (Some 0)"
    by (simp add: flat_hist3_def example_row_def fle_def)
  from s8_matches_iff[OF h3 h2] z
  have b: "\<exists>res. check_strategies flat_hist3 [''S8''] = Inr res \<and> MACD_slow_climb \<notin> set res"
    by blast
  from h1 h2 a z b show ?thesis by (intro conjI)
qed

text \<open>
  Claim C4, as the code has it. On a table of at least three rows (the evaluator reads
  three rows whatever is requested), with S3 requested, the label of S3 is among the
  matches exactly when the last close is above the upper band and the close before it is
  not above its upper band. Consequently, when the close is not above the band at bar
  \<open>s\<close> and stays above it at every bar of \<open>s + 1 .. e\<close>, the evaluation at a bar
  \<open>k\<close> of that run (on the table up to and including bar \<open>k\<close>) matches S3 exactly at
  the transition bar \<open>k = s + 1\<close>.
\<close>

theorem s3_breakout:
  assumes "''S3'' \<in> set strategies"
  shows "(3 \<le> length df \<longrightarrow>
      (\<exists>res. check_strategies df strategies = Inr res \<and>
         (Bollinger_upper_break \<in> set res \<longleftrightarrow>
            fgt (Close (df ! (length df - 1))) (Upper (df ! (length df - 1)))
          \<and> fle (Close (df ! (length df - 2))) (Upper (df ! (length df - 2))))))
   \<and> (\<forall>s e k. e < length df \<and> fle (Close (df ! s)) (Upper (df ! s))
          \<and> (\<forall>j. s < j \<and> j \<le> e \<longrightarrow> fgt (Close (df ! j)) (Upper (df ! j)))
          \<and> s < k \<and> k \<le> e \<and> 2 \<le> k \<longrightarrow>
      (\<exists>res. check_strategies (take (Suc k) df) strategies = Inr res \<and>
         (Bollinger_upper_break \<in> set res \<longleftrightarrow> k = Suc s)))"
proof (intro conjI impI allI)
  assume "3 \<le> length df"
  then show "\<exists>res. check_strategies df strategies = Inr res \<and>
         (Bollinger_upper_break \<in> set res \<longleftrightarrow>
            fgt (Close (df ! (length df - 1))) (Upper (df ! (length df - 1)))
          \<and> fle (Close (df ! (length df - 2))) (Upper (df ! (length df - 2))))"
    using assms by (rule s3_last_rows)
next
  fix s e k
  assume h: "e < length df \<and> fle (Close (df ! s)) (Upper (df ! s))
          \<and> (\<forall>j. s < j \<and> j \<le> e \<longrightarrow> fgt (Close (df ! j)) (Upper (df ! j)))
          \<and> s < k \<and> k \<le> e \<and> 2 \<le> k"
  then have k: "2 \<le> k" "k < length df" by auto
  have above_k: "fgt (Close (df ! k)) (Upper (df ! k))" using h by auto
  have prev: "fle (Close (df ! (k - 1))) (Upper (df ! (k - 1))) \<longleftrightarrow> k = Suc s"
  proof
    assume le: "fle (Close (df ! (k - 1))) (Upper (df ! (k - 1)))"
    show "k = Suc s"
    proof (rule ccontr)
      assume "k \<noteq> Suc s"
      then have "s < k - 1 \<and> k - 1 \<le> e" using h by auto
      then have "fgt (Close (df ! (k - 1))) (Upper (df ! (k - 1)))" using h by blast
      then show False using le fle_not_fgt by blast
    qed
  next
    assume "k = Suc s"
    then show "fle (Close (df ! (k - 1))) (Upper (df ! (k - 1)))" using h by simp
  qed
  from s3_at_bar[OF k assms] above_k prev
  show "\<exists>res. check_strategies (take (Suc k) df) strategies = Inr res \<and>
         (Bollinger_upper_break \<in> set res \<longleftrightarrow> k = Suc s)"
    by auto
qed

theorem s3_breakout_witness:
  "''S3'' \<in> set [''S3''] \<and> 3 \<le> length breakout4 \<and>
   (\<exists>res. check_strategies (take 3 breakout4) [''S3''] = Inr res
      \<and> Bollinger_upper_break \<in> set res) \<and>
   (\<exists>res. check_strategies (take 4 breakout4) [''S3''] = Inr res
      \<and> Bollinger_upper_break \<notin> set res) \<and>
   (\<exists>res. check_strategies breakout4 [''S3''] = Inr res
      \<and> Bollinger_upper_break \<notin> set res)"
proof -
  have h: "''S3'' \<in> set [''S3'']" by simp
  have l: "3 \<le> length breakout4" by (simp add: breakout4_def)
  note T = s3_breakout[OF h, of breakout4]
  have below: "fle (Close (breakout4 ! 1)) (Upper (breakout4 ! 1))"
    by (simp add: breakout4_def example_row_def fle_def)
  have above2: "fgt (Close (breakout4 ! 2)) (Upper (breakout4 ! 2))"
    by (simp add: breakout4_def example_row_def fgt_def)
  have above3: "fgt (Close (breakout4 ! 3)) (Upper (breakout4 ! 3))"
    by (simp add: breakout4_def example_row_def fgt_def)
  have run: "\<forall>j. 1 < j \<and> j \<le> 3 \<longrightarrow> fgt (Close (breakout4 ! j)) (Upper (breakout4 ! j))"
  proof (intro allI impI)
    fix j :: nat assume "1 < j \<and> j \<le> 3"
    then have "j = 2 \<or> j = 3" by arith
    then show "fgt (Close (breakout4 ! j)) (Upper (breakout4 ! j))"
      using above2 above3 by blast
  qed
  have e: "(3::nat) < length breakout4" by (simp add: breakout4_def)
  have p2: "3 < length breakout4 \<and> fle (Close (breakout4 ! 1)) (Upper (breakout4 ! 1))
      \<and> (\<forall>j. 1 < j \<and> j \<le> 3 \<longrightarrow> fgt (Close (breakout4 ! j)) (Upper (breakout4 ! j)))
      \<and> (1::nat) < 2 \<and> (2::nat) \<le> 3 \<and> (2::nat) \<le> 2"
    using e below run by simp
  have p3: "3 < length breakout4 \<and> fle (Close (breakout4 ! 1)) (Upper (breakout4 ! 1))
      \<and> (\<forall>j. 1 < j \<and> j \<le> 3 \<longrightarrow> fgt (Close (breakout4 ! j)) (Upper (breakout4 ! j)))
      \<and> (1::nat) < 3 \<and> (3::nat) \<le> 3 \<and> (2::nat) \<le> 3"
    using e below run by simp
  from T[THEN conjunct2, rule_format, of 3 1 2, OF p2]
  have a: "\<exists>res. check_strategies (take 3 breakout4) [''S3''] = Inr res
      \<and> Bollinger_upper_break \<in> set res"
    by (simp add: eval_nat_numeral)
  from T[THEN conjunct2, rule_format, of 3 1 3, OF p3]
  have b: "\<exists>res. check_strategies (take 4 breakout4) [''S3''] = Inr res
      \<and> Bollinger_upper_break \<notin> set res"
    by (simp add: eval_nat_numeral)
  have "\<not> fle (Close (breakout4 ! (length breakout4 - 2))) (Upper (breakout4 ! (length breakout4 - 2)))"
    by (simp add: breakout4_def example_row_def fle_def)
  with T[THEN conjunct1, rule_format, OF l]
  have c: "\<exists>res. check_strategies breakout4 [''S3''] = Inr res
      \<and> Bollinger_upper_break \<notin> set res"
    by blast
  from h l a b c show ?thesis by (intro conjI)
qed

text \<open>
  The claim as stated, for two trailing bars, fails on a table of exactly two rows: the
  upper band is defined at both, the close crosses it, and the evaluator raises the
  IndexError of \<open>df.iloc[-3]\<close> instead of matching S3.
\<close>

theorem two_rows_raise:
  "Upper (two_rows ! 0) = Some 12 \<and> Upper (two_rows ! 1) = Some 12
   \<and> fgt (Close (two_rows ! 1)) (Upper (two_rows ! 1))
   \<and> fle (Close (two_rows ! 0)) (Upper (two_rows ! 0))
   \<and> check_strategies two_rows [''S3''] = Inl IndexError"
  by (simp add: check_strategies_def iloc_neg_def two_rows_def example_row_def fgt_def fle_def)

text \<open>
  Claim C6, as the code has it. The evaluator fails, with the IndexError of the
  positional read, exactly on a table of fewer than three rows. On three or more rows it
  returns a match list whether or not the trailing indicator values are defined.
\<close>

theorem evaluator_fails_only_below_three_rows:
  "(length df < 3 \<longrightarrow> check_strategies df strategies = Inl IndexError)
   \<and> (3 \<le> length df \<longrightarrow> (\<exists>res. check_strategies df strategies = Inr res))"
  by (simp add: check_strategies_long check_strategies_short)

theorem evaluator_fails_only_below_three_rows_witness:
  "length (take 2 rising3) < 3 \<and> check_strategies (take 2 rising3) [''S8''] = Inl IndexError
   \<and> 3 \<le> length rising3 \<and> (\<exists>res. check_strategies rising3 [''S8''] = Inr res)"
proof -
  have h1: "length (take 2 rising3) < 3" by (simp add: rising3_def)
  have h2: "3 \<le> length rising3" by (simp add: rising3_def)
  note T = evaluator_fails_only_below_three_rows
  from T[of "take 2 rising3" "[''S8'']", THEN conjunct1, rule_format, OF h1]
       T[of rising3 "[''S8'']", THEN conjunct2, rule_format, OF h2] h1 h2
  show ?thesis by (intro conjI)
qed

text \<open>
  The claim as stated fails on a table whose last three rows have no MACD, signal or
  histogram: the evaluator does not fail, it returns a match list, here with S3 in it.
\<close>

theorem undefined_tail_is_evaluated:
  "MACD (undefined_tail3 ! 2) = None \<and> Signal (undefined_tail3 ! 2) = None
   \<and> Hist (undefined_tail3 ! 2) = None
   \<and> check_strategies undefined_tail3 [''S8'', ''S3''] = Inr [Bollinger_upper_break]"
  by (simp add: check_strategies_def iloc_neg_def Let_def undefined_tail3_def example_row_def
        fgt_def fle_def)

section \<open>Facts about one symbol and about the scan\<close>

lemma process_stock_download_error:
  "download (split_head stock_str @ ''.TW'') = Inl e \<Longrightarrow>
   process_stock download stock_str strategies min_p max_p = None"
  by (simp add: process_stock_def process_stock_try_def)

lemma process_stock_short:
  "download (split_head stock_str @ ''.TW'') = Inr data \<Longrightarrow> length data < 35 \<Longrightarrow>
   process_stock download stock_str strategies min_p max_p = None"
  by (simp add: process_stock_def process_stock_try_def)

lemma process_stock_long:
  assumes "download (split_head stock_str @ ''.TW'') = Inr data" and "35 \<le> length data"
    and "calculate_indicators data = Some df" and "check_strategies df strategies = Inr ms"
  shows "process_stock download stock_str strategies min_p max_p =
     (if fle (Some min_p) (Close (data ! (length data - 1)))
         \<and> fle (Close (data ! (length data - 1))) (Some max_p) \<and> ms \<noteq> []
      then Some \<lparr>m_symbol = stock_str, m_df = df, m_matches = ms,
                 m_price = Close (data ! (length data - 1))\<rparr>
      else None)"
proof -
  have ne: "data \<noteq> []" using assms(2) by auto
  have il: "iloc_neg (map Close data) (Suc 0) = Inr (Close (data ! (length data - Suc 0)))"
    using assms(2) by (simp add: iloc_neg_def)
  show ?thesis
    using assms ne by (simp add: process_stock_def process_stock_try_def il)
qed

lemma process_stock_cases:
  "process_stock download stock_str strategies min_p max_p = None \<or>
   (\<exists>data df ms. download (split_head stock_str @ ''.TW'') = Inr data \<and> 35 \<le> length data
      \<and> calculate_indicators data = Some df \<and> check_strategies df strategies = Inr ms
      \<and> ms \<noteq> []
      \<and> fle (Some min_p) (Close (data ! (length data - 1)))
      \<and> fle (Close (data ! (length data - 1))) (Some max_p)
      \<and> process_stock download stock_str strategies min_p max_p =
          Some \<lparr>m_symbol = stock_str, m_df = df, m_matches = ms,
                 m_price = Close (data ! (length data - 1))\<rparr>)"
proof (cases "download (split_head stock_str @ ''.TW'')")
  case (Inl e)
  then show ?thesis by (simp add: process_stock_download_error)
next
  case (Inr data)
  show ?thesis
  proof (cases "length data < 35")
    case True
    with Inr show ?thesis by (simp add: process_stock_short)
  next
    case False
    then have len: "35 \<le> length data" by simp
    then obtain df where df: "calculate_indicators data = Some df"
      using calculate_indicators_Some_iff by blast
    then have "3 \<le> length df" using len by (simp add: calculate_indicators_length)
    then obtain ms where ms: "check_strategies df strategies = Inr ms"
      by (simp add: check_strategies_long)
    from process_stock_long[where download=download and stock_str=stock_str
          and min_p=min_p and max_p=max_p, OF Inr len df ms] Inr len df ms
    show ?thesis by (auto split: if_splits)
  qed
qed

lemma fle_trans_real: "fle (Some a) p \<Longrightarrow> fle p (Some b) \<Longrightarrow> a \<le> b"
  by (auto simp: fle_def split: option.splits)

lemma process_stock_malformed:
  assumes "strategies = [] \<or> max_p < min_p"
  shows "process_stock download stock_str strategies min_p max_p = None"
proof -
  from process_stock_cases[of download stock_str strategies min_p max_p]
  show ?thesis
  proof
    assume "process_stock download stock_str strategies min_p max_p = None"
    then show ?thesis .
  next
    assume "\<exists>data df ms. download (split_head stock_str @ ''.TW'') = Inr data \<and> 35 \<le> length data
      \<and> calculate_indicators data = Some df \<and> check_strategies df strategies = Inr ms
      \<and> ms \<noteq> []
      \<and> fle (Some min_p) (Close (data ! (length data - 1)))
      \<and> fle (Close (data ! (length data - 1))) (Some max_p)
      \<and> process_stock download stock_str strategies min_p max_p =
          Some \<lparr>m_symbol = stock_str, m_df = df, m_matches = ms,
                 m_price = Close (data ! (length data - 1))\<rparr>"
    then obtain data df ms where h: "35 \<le> length data" "calculate_indicators data = Some df"
      "check_strategies df strategies = Inr ms" "ms \<noteq> []"
      "fle (Some min_p) (Close (data ! (length data - 1)))"
      "fle (Close (data ! (length data - 1))) (Some max_p)" by blast
    have "3 \<le> length df" using h(1,2) by (simp add: calculate_indicators_length)
    then have "strategies = [] \<Longrightarrow> ms = []"
      using h(3) by (simp add: check_strategies_long)
    moreover have "min_p \<le> max_p" using h(5,6) by (rule fle_trans_real)
    ultimately show ?thesis using assms h(4) by auto
  qed
qed

lemma scan_loop_all_returned:
  "scan_loop tot i (map Inr rs) st =
     Inr \<lparr>results = results st @ List.map_filter (\<lambda>r. r) rs,
          progress = progress st @ map (\<lambda>j. (Suc j, tot)) [i..<i + length rs]\<rparr>"
proof (induction rs arbitrary: i st)
  case Nil
  then show ?case by (simp add: List.map_filter_simps)
next
  case (Cons r rs)
  have "i < Suc (i + length rs)" by simp
  then have up: "[i..<Suc (i + length rs)] = i # [Suc i..<Suc (i + length rs)]"
    by (rule upt_conv_Cons)
  show ?case
    by (cases r) (simp_all add: Cons.IH up List.map_filter_simps del: upt_Suc)
qed

lemma map_filter_map_id:
  "List.map_filter (\<lambda>r. r) (map f xs) = List.map_filter f xs"
  by (induction xs) (simp_all add: List.map_filter_simps split: option.splits)

lemma scan_eq:
  "scan download stock_targets strategies price_range =
     Inr \<lparr>results = List.map_filter
                       (\<lambda>s. process_stock download s strategies (fst price_range) (snd price_range))
                       stock_targets,
          progress = map (\<lambda>j. (Suc j, length stock_targets)) [0..<length stock_targets]\<rparr>"
proof -
  have "map (submit download strategies (fst price_range) (snd price_range)) stock_targets
        = map Inr (map (\<lambda>s. process_stock download s strategies (fst price_range) (snd price_range)) stock_targets)"
    by (simp add: submit_def)
  then have "scan download stock_targets strategies price_range =
      scan_loop (length stock_targets) 0
        (map Inr (map (\<lambda>s. process_stock download s strategies (fst price_range) (snd price_range)) stock_targets))
        \<lparr>results = [], progress = []\<rparr>"
    by (simp only: scan_def Let_def)
  then show ?thesis
    by (simp only: scan_loop_all_returned map_filter_map_id)
       (simp del: upt.simps)
qed

lemma scan_malformed:
  assumes "strategies = [] \<or> snd price_range < fst price_range"
  shows "scan download stock_targets strategies price_range =
     Inr \<lparr>results = [],
          progress = map (\<lambda>j. (Suc j, length stock_targets)) [0..<length stock_targets]\<rparr>"
proof -
  have "\<And>s. process_stock download s strategies (fst price_range) (snd price_range) = None"
    using assms by (rule process_stock_malformed)
  then show ?thesis by (simp add: scan_eq List.map_filter_def)
qed

lemma rising35_last_close: "Close (rising35 ! (length rising35 - 1)) = Some 13"
  by (simp add: rising35_def price_bar_def nth_append)

section \<open>Claims about one symbol and about the scan\<close>

text \<open>
  Claim C1. For every price provider, symbol list and request, the scan returns (no
  exception reaches the caller): its results are the records of exactly the symbols for
  which \<open>process_stock\<close> returned one, in order; the progress log has one entry per
  symbol, \<open>(1, N) .. (N, N)\<close>, so the final processed count is \<open>N\<close>; and a symbol whose
  task body raises (download error or any other error) is turned into \<open>None\<close>, that is,
  excluded.
\<close>

theorem scan_processes_every_symbol:
  "scan download stock_targets strategies price_range =
     Inr \<lparr>results = List.map_filter
                       (\<lambda>s. process_stock download s strategies (fst price_range) (snd price_range))
                       stock_targets,
          progress = map (\<lambda>j. (Suc j, length stock_targets)) [0..<length stock_targets]\<rparr>
   \<and> (\<forall>s e. process_stock_try download s strategies (fst price_range) (snd price_range) = Inl e
          \<longrightarrow> process_stock download s strategies (fst price_range) (snd price_range) = None)"
  by (simp add: scan_eq process_stock_def)

theorem scan_processes_every_symbol_witness:
  "process_stock_try failing_download ''2330  TSMC'' [''S8''] 10 500 = Inl DownloadError
   \<and> process_stock failing_download ''2330  TSMC'' [''S8''] 10 500 = None
   \<and> scan failing_download [''2330  TSMC'', ''2317  HonHai''] [''S8''] (10, 500)
        = Inr \<lparr>results = [], progress = [(1, 2), (2, 2)]\<rparr>"
proof -
  note T = scan_processes_every_symbol[of failing_download "[''2330  TSMC'', ''2317  HonHai'']"
      "[''S8'']" "(10, 500)"]
  have e: "process_stock_try failing_download ''2330  TSMC'' [''S8''] (fst (10, 500)) (snd (10, 500))
      = Inl DownloadError"
    by (simp add: process_stock_try_def failing_download_def)
  from T[THEN conjunct2, rule_format, OF e]
  have n: "process_stock failing_download ''2330  TSMC'' [''S8''] 10 500 = None" by simp
  have f: "process_stock failing_download s [''S8''] 10 500 = None" for s
    by (rule process_stock_download_error) (simp add: failing_download_def)
  from T[THEN conjunct1]
  have "scan failing_download [''2330  TSMC'', ''2317  HonHai''] [''S8''] (10, 500)
        = Inr \<lparr>results = [], progress = [(1, 2), (2, 2)]\<rparr>"
    by (simp add: f List.map_filter_simps)
  with e n show ?thesis by simp
qed

text \<open>
  Claim C7, as the code has it. The scan validates nothing: with an empty strategy list
  or an inverted price range it still submits and processes every symbol, returns
  normally with an empty result list and reports progress up to \<open>N\<close> of \<open>N\<close>.
\<close>

theorem scan_without_validation:
  assumes "strategies = [] \<or> snd price_range < fst price_range"
  shows "scan download stock_targets strategies price_range =
     Inr \<lparr>results = [],
          progress = map (\<lambda>j. (Suc j, length stock_targets)) [0..<length stock_targets]\<rparr>"
  using assms by (rule scan_malformed)

theorem scan_without_validation_witness:
  "scan flat_download [''2330  TSMC'', ''2317  HonHai''] [] (10, 500)
     = Inr \<lparr>results = [], progress = [(1, 2), (2, 2)]\<rparr>
   \<and> scan flat_download [''2330  TSMC'', ''2317  HonHai''] [''S8'', ''S3''] (500, 10)
     = Inr \<lparr>results = [], progress = [(1, 2), (2, 2)]\<rparr>"
proof -
  have h1: "([]::string list) = [] \<or> snd (10::real, 500::real) < fst (10::real, 500::real)"
    by simp
  have h2: "[''S8'', ''S3''] = [] \<or> snd (500::real, 10::real) < fst (500::real, 10::real)"
    by simp
  from scan_without_validation[OF h1, of flat_download "[''2330  TSMC'', ''2317  HonHai'']"]
       scan_without_validation[OF h2, of flat_download "[''2330  TSMC'', ''2317  HonHai'']"]
  show ?thesis by simp
qed

text \<open>
  The claim as stated fails: a request with no strategy, and a request whose price range
  is inverted, are both scanned; the symbol is downloaded and processed and the scan
  returns normally instead of raising before the first task.
\<close>

theorem malformed_request_is_scanned:
  "scan flat_download [''2330  TSMC''] [] (10, 500)
     = Inr \<lparr>results = [], progress = [(1, 1)]\<rparr>
   \<and> scan flat_download [''2330  TSMC''] [''S8'', ''S3''] (500, 10)
     = Inr \<lparr>results = [], progress = [(1, 1)]\<rparr>"
proof -
  have h1: "([]::string list) = [] \<or> snd (10::real, 500::real) < fst (10::real, 500::real)"
    by simp
  have h2: "[''S8'', ''S3''] = [] \<or> snd (500::real, 10::real) < fst (500::real, 10::real)"
    by simp
  from scan_malformed[OF h1, of flat_download "[''2330  TSMC'']"]
       scan_malformed[OF h2, of flat_download "[''2330  TSMC'']"]
  show ?thesis by simp
qed

text \<open>
  Claim C8. The price filter is inclusive at both ends: when the last close of a symbol
  with at least 35 bars equals \<open>min_p\<close> or \<open>max_p\<close> (and \<open>min_p \<le> max_p\<close>), the
  symbol passes the filter; whether it is returned is then decided by the strategies
  alone, and its record carries that close.
\<close>

theorem price_bounds_inclusive:
  assumes "download (split_head stock_str @ ''.TW'') = Inr data" and "35 \<le> length data"
    and "Close (data ! (length data - 1)) = Some p" and "p = min_p \<or> p = max_p"
    and "min_p \<le> max_p"
  shows "\<exists>df ms. calculate_indicators data = Some df \<and> check_strategies df strategies = Inr ms
     \<and> process_stock download stock_str strategies min_p max_p =
         (if ms \<noteq> [] then Some \<lparr>m_symbol = stock_str, m_df = df, m_matches = ms, m_price = Some p\<rparr>
          else None)"
proof -
  obtain df where df: "calculate_indicators data = Some df"
    using assms(2) calculate_indicators_Some_iff by blast
  then have "3 \<le> length df" using assms(2) by (simp add: calculate_indicators_length)
  then obtain ms where ms: "check_strategies df strategies = Inr ms"
    by (simp add: check_strategies_long)
  have "fle (Some min_p) (Some p) \<and> fle (Some p) (Some max_p)"
    using assms(4,5) by (auto simp: fle_def)
  with process_stock_long[where download=download and stock_str=stock_str
          and min_p=min_p and max_p=max_p, OF assms(1,2) df ms] assms(3) df ms
  show ?thesis by simp
qed

text \<open>
  On \<open>rising35\<close> MACD rises over the last three bars, so S8 matches; the last close is
  13. The symbol is returned when 13 is the upper bound and when 13 is the lower bound,
  and is excluded when the range ends at 12 or starts at 14.
\<close>

theorem price_bounds_inclusive_witness:
  "rising_download (split_head ''2330  TSMC'' @ ''.TW'') = Inr rising35 \<and> 35 \<le> length rising35
   \<and> Close (rising35 ! (length rising35 - 1)) = Some 13
   \<and> (\<exists>df. calculate_indicators rising35 = Some df
        \<and> check_strategies df [''S8''] = Inr [MACD_slow_climb]
        \<and> process_stock rising_download ''2330  TSMC'' [''S8''] 10 13 =
            Some \<lparr>m_symbol = ''2330  TSMC'', m_df = df, m_matches = [MACD_slow_climb],
                   m_price = Some 13\<rparr>
        \<and> process_stock rising_download ''2330  TSMC'' [''S8''] 13 500 =
            Some \<lparr>m_symbol = ''2330  TSMC'', m_df = df, m_matches = [MACD_slow_climb],
                   m_price = Some 13\<rparr>
        \<and> process_stock rising_download ''2330  TSMC'' [''S8''] 10 12 = None
        \<and> process_stock rising_download ''2330  TSMC'' [''S8''] 14 500 = None)"
proof -
  have h1: "rising_download (split_head ''2330  TSMC'' @ ''.TW'') = Inr rising35"
    by (simp add: rising_download_def)
  have h2: "35 \<le> length rising35" by (simp add: length_rising35)
  have h3: "Close (rising35 ! (length rising35 - 1)) = Some 13" by (rule rising35_last_close)
  have a: "(13::real) = 10 \<or> (13::real) = 13" by simp
  have b: "(13::real) = 13 \<or> (13::real) = 500" by simp
  have c: "(10::real) \<le> 13" and d: "(13::real) \<le> 500" by simp_all
  from price_bounds_inclusive[where download=rising_download and stock_str="''2330  TSMC''"
         and strategies="[''S8'']" and min_p=10 and max_p=13, OF h1 h2 h3 a c]
  obtain df ms where df: "calculate_indicators rising35 = Some df"
    and ms: "check_strategies df [''S8''] = Inr ms"
    and p1: "process_stock rising_download ''2330  TSMC'' [''S8''] 10 13 =
         (if ms \<noteq> [] then Some \<lparr>m_symbol = ''2330  TSMC'', m_df = df, m_matches = ms,
                                  m_price = Some 13\<rparr> else None)"
    by blast
  from price_bounds_inclusive[where download=rising_download and stock_str="''2330  TSMC''"
         and strategies="[''S8'']" and min_p=13 and max_p=500, OF h1 h2 h3 b d]
  obtain df' ms' where df': "calculate_indicators rising35 = Some df'"
    and ms': "check_strategies df' [''S8''] = Inr ms'"
    and p2: "process_stock rising_download ''2330  TSMC'' [''S8''] 13 500 =
         (if ms' \<noteq> [] then Some \<lparr>m_symbol = ''2330  TSMC'', m_df = df', m_matches = ms',
                                   m_price = Some 13\<rparr> else None)"
    by blast
  have m: "check_strategies df [''S8''] = Inr [MACD_slow_climb]"
    using df by (rule rising35_matches_s8)
  have e1: "ms = [MACD_slow_climb]" using ms m by simp
  have e2: "df' = df" using df df' by simp
  have e3: "ms' = [MACD_slow_climb]" using ms' m e2 by simp
  have q1: "process_stock rising_download ''2330  TSMC'' [''S8''] 10 13 =
      Some \<lparr>m_symbol = ''2330  TSMC'', m_df = df, m_matches = [MACD_slow_climb],
             m_price = Some 13\<rparr>"
    using p1 e1 by simp
  have q2: "process_stock rising_download ''2330  TSMC'' [''S8''] 13 500 =
      Some \<lparr>m_symbol = ''2330  TSMC'', m_df = df, m_matches = [MACD_slow_climb],
             m_price = Some 13\<rparr>"
    using p2 e2 e3 by simp
  have q3: "process_stock rising_download ''2330  TSMC'' [''S8''] 10 12 = None"
    using process_stock_long[where download=rising_download and stock_str="''2330  TSMC''"
         and min_p=10 and max_p=12, OF h1 h2 df m] h3
    by (simp add: fle_def)
  have q4: "process_stock rising_download ''2330  TSMC'' [''S8''] 14 500 = None"
    using process_stock_long[where download=rising_download and stock_str="''2330  TSMC''"
         and min_p=14 and max_p=500, OF h1 h2 df m] h3
    by (simp add: fle_def)
  from h1 h2 h3 df m q1 q2 q3 q4 show ?thesis by blast
qed

end
